theory Spec2Isabelle
  imports Main "HOL-Library.AList" "HOL-Library.Word"
begin

section \<open>Python values\<close>

text \<open>
  A Python \<open>str\<close> is a sequence of Unicode code points, and \<open>len\<close>, slicing and
  \<open>strip\<close> count code points. Strings are therefore lists of natural numbers; \<open>lit\<close>
  turns an ASCII literal of the source into such a list.
\<close>

type_synonym pystr = "nat list"

definition lit :: "string \<Rightarrow> pystr" where
  "lit s = map of_char s"

text \<open>\<open>bytes\<close> values, as read from an uploaded file.\<close>

type_synonym byte = "8 word"

text \<open>
  The value \<open>json.loads\<close> returns: \<open>None\<close>, \<open>bool\<close>, \<open>int\<close>, \<open>str\<close>, \<open>list\<close> and
  \<open>dict\<close> (insertion ordered, hence an association list; \<open>map_of\<close> is the lookup).
  JSON numbers with a fraction or an exponent become Python floats and are not represented.
\<close>

datatype json =
    JNull
  | JBool bool
  | JInt int
  | JStr pystr
  | JList "json list"
  | JObj "(pystr \<times> json) list"

text \<open>
  Exceptions, each with its \<open>str(e)\<close>. All of them derive from \<open>Exception\<close>.
  \<open>ValueError\<close> stands for the class itself and any subclass other than
  \<open>json.JSONDecodeError\<close>; \<open>OtherError\<close> for every exception class that is not listed
  (a network failure, a malformed archive).
\<close>

datatype py_exn =
    ValueError pystr
  | JSONDecodeError pystr
  | TypeError pystr
  | AttributeError pystr
  | OtherError pystr

fun exn_str :: "py_exn \<Rightarrow> pystr" where
  "exn_str (ValueError m) = m"
| "exn_str (JSONDecodeError m) = m"
| "exn_str (TypeError m) = m"
| "exn_str (AttributeError m) = m"
| "exn_str (OtherError m) = m"

text \<open>What \<open>except ValueError\<close> catches: the class and its subclasses.\<close>

fun is_ValueError :: "py_exn \<Rightarrow> bool" where
  "is_ValueError (ValueError m) = True"
| "is_ValueError (JSONDecodeError m) = True"
| "is_ValueError e = False"

fun type_name :: "json \<Rightarrow> pystr" where
  "type_name JNull = lit ''NoneType''"
| "type_name (JBool b) = lit ''bool''"
| "type_name (JInt n) = lit ''int''"
| "type_name (JStr s) = lit ''str''"
| "type_name (JList xs) = lit ''list''"
| "type_name (JObj kvs) = lit ''dict''"

text \<open>Surrounding a name with apostrophes, as Python's messages do.\<close>

definition quoted :: "pystr \<Rightarrow> pystr" where
  "quoted s = 39 # s @ [39]"

text \<open>Truth value of an object in \<open>if x:\<close>.\<close>

fun py_truthy :: "json \<Rightarrow> bool" where
  "py_truthy JNull = False"
| "py_truthy (JBool b) = b"
| "py_truthy (JInt n) = (n \<noteq> 0)"
| "py_truthy (JStr s) = (s \<noteq> [])"
| "py_truthy (JList xs) = (xs \<noteq> [])"
| "py_truthy (JObj kvs) = (kvs \<noteq> [])"

text \<open>\<open>str(n)\<close> of an integer: decimal digits, with a minus sign when negative.\<close>

function dec_digits :: "nat \<Rightarrow> pystr" where
  "dec_digits n = (if n < 10 then [48 + n] else dec_digits (n div 10) @ [48 + n mod 10])"
  by pat_completeness auto
termination
  by (relation "measure id") auto

declare dec_digits.simps [simp del]

definition str_int :: "int \<Rightarrow> pystr" where
  "str_int n = (if n < 0 then 45 # dec_digits (nat (- n)) else dec_digits (nat n))"

text \<open>
  \<open>str(v)\<close>, which is also what an f-string field \<open>{v}\<close> inserts. The string form of a
  list or a dict is built from \<open>repr\<close> of its elements, a function of the interpreter that
  is taken as the parameter \<open>rp\<close>.
\<close>

fun py_str :: "(json \<Rightarrow> pystr) \<Rightarrow> json \<Rightarrow> pystr" where
  "py_str rp JNull = lit ''None''"
| "py_str rp (JBool b) = (if b then lit ''True'' else lit ''False'')"
| "py_str rp (JInt n) = str_int n"
| "py_str rp (JStr s) = s"
| "py_str rp (JList xs) = rp (JList xs)"
| "py_str rp (JObj kvs) = rp (JObj kvs)"

text \<open>\<open>d.get(k, default)\<close> on a dict.\<close>

definition dict_get :: "(pystr \<times> json) list \<Rightarrow> pystr \<Rightarrow> json \<Rightarrow> json" where
  "dict_get kvs k dflt = (case map_of kvs k of None \<Rightarrow> dflt | Some v \<Rightarrow> v)"

text \<open>
  \<open>for x in v\<close>: a list yields its items, a string its characters, a dict its keys;
  anything else raises \<open>TypeError\<close>.
\<close>

fun py_iter :: "json \<Rightarrow> py_exn + json list" where
  "py_iter (JList xs) = Inr xs"
| "py_iter (JStr s) = Inr (map (\<lambda>c. JStr [c]) s)"
| "py_iter (JObj kvs) = Inr (map (\<lambda>kv. JStr (fst kv)) kvs)"
| "py_iter v = Inl (TypeError (quoted (type_name v) @ lit '' object is not iterable''))"

text \<open>\<open>sep.join(items)\<close> on strings.\<close>

fun join_strs :: "pystr \<Rightarrow> pystr list \<Rightarrow> pystr" where
  "join_strs sep [] = []"
| "join_strs sep [s] = s"
| "join_strs sep (s # t # ss) = s @ sep @ join_strs sep (t # ss)"

text \<open>The items of a list as strings; the first item that is not a \<open>str\<close> raises.\<close>

fun str_items :: "json list \<Rightarrow> nat \<Rightarrow> py_exn + pystr list" where
  "str_items [] i = Inr []"
| "str_items (JStr s # xs) i =
     (case str_items xs (Suc i) of Inl e \<Rightarrow> Inl e | Inr ss \<Rightarrow> Inr (s # ss))"
| "str_items (x # xs) i =
     Inl (TypeError (lit ''sequence item '' @ dec_digits i @ lit '': expected str instance, ''
                     @ type_name x @ lit '' found''))"

text \<open>\<open>sep.join(v)\<close> for an arbitrary object \<open>v\<close>.\<close>

fun py_join :: "pystr \<Rightarrow> json \<Rightarrow> py_exn + pystr" where
  "py_join sep (JList xs) =
     (case str_items xs 0 of Inl e \<Rightarrow> Inl e | Inr ss \<Rightarrow> Inr (join_strs sep ss))"
| "py_join sep (JStr s) = Inr (join_strs sep (map (\<lambda>c. [c]) s))"
| "py_join sep (JObj kvs) = Inr (join_strs sep (map fst kvs))"
| "py_join sep v = Inl (TypeError (lit ''can only join an iterable''))"

section \<open>The document renderer\<close>

text \<open>
  \<open>create_word_bytes_from_requirements\<close> drives python-docx through \<open>add_heading\<close>,
  \<open>add_paragraph\<close>, \<open>add_run\<close> and \<open>add_page_break\<close>. The document is the sequence of
  elements these calls append, each holding the arguments it was given: the text handed
  to the library (a Python value, passed on as it is), the style, and the runs added to
  the element afterwards.
\<close>

datatype run = Run (run_text: json) (run_bold: bool) (run_size: "nat option")

datatype block =
    Heading (heading_level: nat) (heading_text: json) (heading_runs: "run list")
  | Paragraph (paragraph_text: json) (paragraph_style: "pystr option") (paragraph_runs: "run list")
  | PageBreak

abbreviation plain_run :: "json \<Rightarrow> run" where
  "plain_run t \<equiv> Run t False None"

abbreviation bold_run :: "string \<Rightarrow> run" where
  "bold_run s \<equiv> Run (JStr (lit s)) True None"

text \<open>Title, blank line, overview and the first page break (lines 124 to 140).\<close>

definition document_intro :: "(json \<Rightarrow> pystr) \<Rightarrow> json \<Rightarrow> block list" where
  "document_intro rp project_key =
     [Heading 0 (JStr [])
        [Run (JStr (py_str rp project_key @ lit '' '' @ [8211] @ lit '' Requirements Specification''))
             False (Some 20)],
      Paragraph (JStr []) None [],
      Heading 1 (JStr (lit ''Overview'')) [],
      Paragraph (JStr (lit (''This document contains auto-generated Jira-style requirements derived ''
                            @ ''from raw text and conversational input.''))) None [],
      PageBreak]"

text \<open>The metadata paragraph of one requirement (lines 157 to 166).\<close>

definition meta_runs :: "(json \<Rightarrow> pystr) \<Rightarrow> json \<Rightarrow> json \<Rightarrow> json \<Rightarrow> run list" where
  "meta_runs rp issue_type priority story_points =
     [bold_run ''Issue Type: '', plain_run issue_type,
      bold_run ''   |   Priority: '', plain_run priority]
     @ (if story_points \<noteq> JNull
        then [bold_run ''   |   Story Points: '', plain_run (JStr (py_str rp story_points))]
        else [])"

text \<open>The optional dependencies paragraph (lines 168 to 171).\<close>

definition dependencies_blocks :: "json \<Rightarrow> py_exn + block list" where
  "dependencies_blocks dependencies =
     (if py_truthy dependencies
      then (case py_join (lit '', '') dependencies of
              Inl e \<Rightarrow> Inl e
            | Inr joined \<Rightarrow>
                Inr [Paragraph (JStr []) None [bold_run ''Dependencies: '', plain_run (JStr joined)]])
      else Inr [])"

text \<open>
  The body of the loop over the requirements (lines 144 to 182): the elements one
  requirement appends, or the exception that ends the rendering.
\<close>

fun requirement_blocks :: "(json \<Rightarrow> pystr) \<Rightarrow> json \<Rightarrow> py_exn + block list" where
  "requirement_blocks rp (JObj req) =
     (let req_id = dict_get req (lit ''id'') (JStr (lit ''REQ-?''));
          issue_type = dict_get req (lit ''issue_type'') (JStr (lit ''Story''));
          summary = dict_get req (lit ''summary'') (JStr []);
          description = dict_get req (lit ''description'') (JStr []);
          priority = dict_get req (lit ''priority'') (JStr (lit ''Medium''));
          story_points = dict_get req (lit ''story_points'') JNull;
          acceptance_criteria = dict_get req (lit ''acceptance_criteria'') (JList []);
          dependencies = dict_get req (lit ''dependencies'') (JList [])
      in case dependencies_blocks dependencies of
           Inl e \<Rightarrow> Inl e
         | Inr deps \<Rightarrow>
             (case py_iter acceptance_criteria of
                Inl e \<Rightarrow> Inl e
              | Inr criteria \<Rightarrow>
                  Inr ([Heading 1 (JStr (py_str rp req_id @ lit '': '' @ py_str rp summary)) [],
                        Paragraph (JStr []) None (meta_runs rp issue_type priority story_points)]
                       @ deps
                       @ [Heading 2 (JStr (lit ''Description'')) [],
                          Paragraph description None [],
                          Heading 2 (JStr (lit ''Acceptance Criteria'')) []]
                       @ map (\<lambda>criterion. Paragraph criterion (Some (lit ''List Bullet'')) []) criteria
                       @ [PageBreak])))"
| "requirement_blocks rp v =
     Inl (AttributeError (quoted (type_name v) @ lit '' object has no attribute '' @ quoted (lit ''get'')))"

text \<open>The loop itself: \<open>doc\<close> is the document built so far.\<close>

fun requirements_loop :: "(json \<Rightarrow> pystr) \<Rightarrow> json list \<Rightarrow> block list \<Rightarrow> py_exn + block list" where
  "requirements_loop rp [] doc = Inr doc"
| "requirements_loop rp (req # rest) doc =
     (case requirement_blocks rp req of
        Inl e \<Rightarrow> Inl e
      | Inr blocks \<Rightarrow> requirements_loop rp rest (doc @ blocks))"

text \<open>The document \<open>create_word_bytes_from_requirements\<close> builds (lines 121 to 182).\<close>

fun document_content :: "(json \<Rightarrow> pystr) \<Rightarrow> json \<Rightarrow> py_exn + block list" where
  "document_content rp (JObj data) =
     (let project_key = dict_get data (lit ''project_key'') (JStr (lit ''PROJECT''));
          requirements = dict_get data (lit ''requirements'') (JList [])
      in case py_iter requirements of
           Inl e \<Rightarrow> Inl e
         | Inr reqs \<Rightarrow> requirements_loop rp reqs (document_intro rp project_key))"
| "document_content rp v =
     Inl (AttributeError (quoted (type_name v) @ lit '' object has no attribute '' @ quoted (lit ''get'')))"

text \<open>
  A paragraph is a dependencies line when it opens with the bold label
  \<open>Dependencies: \<close>.
\<close>

fun is_dependencies_line :: "block \<Rightarrow> bool" where
  "is_dependencies_line (Paragraph t st (r # rs)) = (r = bold_run ''Dependencies: '')"
| "is_dependencies_line b = False"

fun is_page_break :: "block \<Rightarrow> bool" where
  "is_page_break PageBreak = True"
| "is_page_break b = False"

fun is_heading1 :: "block \<Rightarrow> bool" where
  "is_heading1 (Heading l t rs) = (l = 1)"
| "is_heading1 b = False"

text \<open>
  The shape the prompt of \<open>generate_requirements_from_text\<close> asks the service for
  (lines 46 to 65), every field being optional as the renderer reads each with a default.
\<close>

definition field_ok :: "(pystr \<times> json) list \<Rightarrow> string \<Rightarrow> (json \<Rightarrow> bool) \<Rightarrow> bool" where
  "field_ok kvs k ok = (case map_of kvs (lit k) of None \<Rightarrow> True | Some v \<Rightarrow> ok v)"

fun is_str :: "json \<Rightarrow> bool" where
  "is_str (JStr s) = True"
| "is_str v = False"

fun is_int :: "json \<Rightarrow> bool" where
  "is_int (JInt n) = True"
| "is_int v = False"

fun is_str_list :: "json \<Rightarrow> bool" where
  "is_str_list (JList xs) = list_all is_str xs"
| "is_str_list v = False"

fun requirement_schema :: "json \<Rightarrow> bool" where
  "requirement_schema (JObj req) =
     (field_ok req ''id'' is_str \<and> field_ok req ''issue_type'' is_str
      \<and> field_ok req ''summary'' is_str \<and> field_ok req ''description'' is_str
      \<and> field_ok req ''priority'' is_str \<and> field_ok req ''story_points'' is_int
      \<and> field_ok req ''acceptance_criteria'' is_str_list
      \<and> field_ok req ''dependencies'' is_str_list)"
| "requirement_schema v = False"

text \<open>
  The elements of one requirement around the optional dependencies paragraph: heading
  and metadata paragraph before it, description and acceptance criteria after it.
\<close>

definition section_head :: "(json \<Rightarrow> pystr) \<Rightarrow> (pystr \<times> json) list \<Rightarrow> block list" where
  "section_head rp req =
     [Heading 1 (JStr (py_str rp (dict_get req (lit ''id'') (JStr (lit ''REQ-?'')))
                       @ lit '': '' @ py_str rp (dict_get req (lit ''summary'') (JStr [])))) [],
      Paragraph (JStr []) None
        (meta_runs rp (dict_get req (lit ''issue_type'') (JStr (lit ''Story'')))
                      (dict_get req (lit ''priority'') (JStr (lit ''Medium'')))
                      (dict_get req (lit ''story_points'') JNull))]"

definition section_tail :: "(pystr \<times> json) list \<Rightarrow> json list \<Rightarrow> block list" where
  "section_tail req criteria =
     [Heading 2 (JStr (lit ''Description'')) [],
      Paragraph (dict_get req (lit ''description'') (JStr [])) None [],
      Heading 2 (JStr (lit ''Acceptance Criteria'')) []]
     @ map (\<lambda>criterion. Paragraph criterion (Some (lit ''List Bullet'')) []) criteria
     @ [PageBreak]"

section \<open>Strings and bytes\<close>

text \<open>
  The characters \<open>str.strip()\<close> removes and \<open>str.isspace()\<close> accepts: the ASCII
  white space and separators, and the Unicode spaces.
\<close>

definition is_space :: "nat \<Rightarrow> bool" where
  "is_space c =
     ((9 \<le> c \<and> c \<le> 13) \<or> (28 \<le> c \<and> c \<le> 32) \<or> c = 133 \<or> c = 160 \<or> c = 5760
      \<or> (8192 \<le> c \<and> c \<le> 8202) \<or> c = 8232 \<or> c = 8233 \<or> c = 8239 \<or> c = 8287 \<or> c = 12288)"

definition strip :: "pystr \<Rightarrow> pystr" where
  "strip s = rev (dropWhile is_space (rev (dropWhile is_space s)))"

definition endswith :: "pystr \<Rightarrow> pystr \<Rightarrow> bool" where
  "endswith s suffix =
     (length suffix \<le> length s \<and> drop (length s - length suffix) s = suffix)"

text \<open>
  \<open>str.lower()\<close> on the ASCII letters. Code points outside ASCII are left as they are;
  the source only asks whether the lowered name ends in \<open>.txt\<close> or \<open>.docx\<close>, and no
  code point outside ASCII lowers to one of the characters of these suffixes.
\<close>

definition lower :: "pystr \<Rightarrow> pystr" where
  "lower s = map (\<lambda>c. if 65 \<le> c \<and> c \<le> 90 then c + 32 else c) s"

text \<open>\<open>s.replace("\n", " ")\<close>.\<close>

definition replace_newlines :: "pystr \<Rightarrow> pystr" where
  "replace_newlines s = map (\<lambda>c. if c = 10 then 32 else c) s"

text \<open>\<open>html.escape(s)\<close>, with its default \<open>quote=True\<close>.\<close>

definition escape_char :: "nat \<Rightarrow> pystr" where
  "escape_char c =
     (if c = 38 then lit ''&amp;''
      else if c = 60 then lit ''&lt;''
      else if c = 62 then lit ''&gt;''
      else if c = 34 then lit ''&quot;''
      else if c = 39 then lit ''&#x27;''
      else [c])"

definition html_escape :: "pystr \<Rightarrow> pystr" where
  "html_escape s = concat (map escape_char s)"

text \<open>
  \<open>bytes.decode("utf-8", errors="ignore")\<close>. A well-formed sequence yields its code point.
  A byte that cannot start a sequence is dropped; a lead byte whose next byte cannot
  follow it is dropped alone; a sequence broken or cut off later loses the bytes read so
  far, and decoding resumes at the offending byte.
\<close>

definition is_cont :: "nat \<Rightarrow> bool" where
  "is_cont c = (128 \<le> c \<and> c \<le> 191)"

definition second_ok :: "nat \<Rightarrow> nat \<Rightarrow> bool" where
  "second_ok b c =
     (if b = 224 then 160 \<le> c \<and> c \<le> 191
      else if b = 237 then 128 \<le> c \<and> c \<le> 159
      else if b = 240 then 144 \<le> c \<and> c \<le> 191
      else if b = 244 then 128 \<le> c \<and> c \<le> 143
      else is_cont c)"

fun utf8_ignore :: "nat list \<Rightarrow> pystr" where
  "utf8_ignore [] = []"
| "utf8_ignore [b] = (if b < 128 then [b] else [])"
| "utf8_ignore (b # c1 # bs) =
     (if b < 128 then b # utf8_ignore (c1 # bs)
      else if 194 \<le> b \<and> b \<le> 223 then
        (if is_cont c1 then ((b - 192) * 64 + (c1 - 128)) # utf8_ignore bs
         else utf8_ignore (c1 # bs))
      else if 224 \<le> b \<and> b \<le> 239 then
        (if \<not> second_ok b c1 then utf8_ignore (c1 # bs)
         else (case bs of
                 [] \<Rightarrow> []
               | c2 # bs2 \<Rightarrow>
                   if is_cont c2
                   then ((b - 224) * 4096 + (c1 - 128) * 64 + (c2 - 128)) # utf8_ignore bs2
                   else utf8_ignore bs))
      else if 240 \<le> b \<and> b \<le> 244 then
        (if \<not> second_ok b c1 then utf8_ignore (c1 # bs)
         else (case bs of
                 [] \<Rightarrow> []
               | c2 # bs2 \<Rightarrow>
                   if \<not> is_cont c2 then utf8_ignore bs
                   else (case bs2 of
                           [] \<Rightarrow> []
                         | c3 # bs3 \<Rightarrow>
                             if is_cont c3
                             then ((b - 240) * 262144 + (c1 - 128) * 4096
                                   + (c2 - 128) * 64 + (c3 - 128)) # utf8_ignore bs3
                             else utf8_ignore bs2)))
      else utf8_ignore (c1 # bs))"

definition decode_utf8_ignore :: "byte list \<Rightarrow> pystr" where
  "decode_utf8_ignore file_bytes = utf8_ignore (map unat file_bytes)"

text \<open>
  \<open>str(e)\<close> of the \<open>UnicodeEncodeError\<close> that \<open>s.encode("latin-1")\<close> raises when \<open>s\<close>
  holds a code point above 255: it names the first run of such code points.
\<close>

definition hex_fixed :: "nat \<Rightarrow> nat \<Rightarrow> pystr" where
  "hex_fixed k n =
     map (\<lambda>i. let d = (n div 16 ^ i) mod 16 in if d < 10 then 48 + d else 87 + d) (rev [0..<k])"

definition latin1_error :: "pystr \<Rightarrow> pystr" where
  "latin1_error s =
     (let start = length (takeWhile (\<lambda>c. c < 256) s);
          bad = takeWhile (\<lambda>c. 256 \<le> c) (drop start s)
      in quoted (lit ''latin-1'') @ lit '' codec can'' @ [39] @ lit ''t encode ''
         @ (case bad of
              [c] \<Rightarrow> lit ''character ''
                       @ quoted (92 # (if c \<le> 65535 then 117 # hex_fixed 4 c
                                       else 85 # hex_fixed 8 c))
                       @ lit '' in position '' @ dec_digits start
            | _ \<Rightarrow> lit ''characters in position '' @ dec_digits start @ lit ''-''
                     @ dec_digits (start + length bad - 1))
         @ lit '': ordinal not in range(256)'')"

section \<open>Collaborators\<close>

text \<open>
  What the program calls and does not define: the process environment, the
  text-generation service (called with the fixed model, system prompt and output limit,
  so that the key and the user prompt are its arguments), \<open>json.loads\<close>, python-docx
  reading the paragraph texts of an uploaded document, python-docx building and
  serialising a document from the calls made on it, and \<open>repr\<close>. Each may raise.
\<close>

record services =
  getenv :: "pystr \<Rightarrow> pystr option"
  responses_create :: "pystr \<Rightarrow> pystr \<Rightarrow> py_exn + pystr"
  json_loads :: "pystr \<Rightarrow> py_exn + json"
  docx_paragraphs :: "byte list \<Rightarrow> py_exn + pystr list"
  docx_save :: "block list \<Rightarrow> py_exn + byte list"
  py_repr :: "json \<Rightarrow> pystr"

text \<open>An uploaded file: its name, and what reading it gives.\<close>

record upload =
  upload_filename :: "pystr option"
  upload_read :: "py_exn + byte list"

section \<open>The requirement extractor\<close>

definition missing_key_message :: pystr where
  "missing_key_message =
     lit (''Missing OPENAI_API_KEY environment variable. ''
          @ ''Please set it before running this app.'')"

definition empty_response_message :: pystr where
  "empty_response_message = lit ''The model returned an empty response. Please try again.''"

definition user_prompt :: "pystr \<Rightarrow> pystr" where
  "user_prompt raw_text =
     [10] @ lit ''Source text (notes / conversation):'' @ [10, 10, 34, 34, 34] @ raw_text
     @ [34, 34, 34, 10, 10] @ lit ''Now produce the JSON only, with no extra commentary.'' @ [10]"

text \<open>The first 200 characters of the output, on one line (line 103).\<close>

definition preview :: "pystr \<Rightarrow> pystr" where
  "preview json_text = replace_newlines (take 200 json_text)"

definition invalid_json_message :: "pystr \<Rightarrow> pystr \<Rightarrow> pystr" where
  "invalid_json_message parser_error json_text =
     lit ''Model output was not valid JSON. '' @ lit ''Error: '' @ parser_error
     @ lit ''. Output preview: '' @ preview json_text"

definition generate_requirements_from_text :: "services \<Rightarrow> pystr \<Rightarrow> py_exn + json" where
  "generate_requirements_from_text sv raw_text =
     (case getenv sv (lit ''OPENAI_API_KEY'') of
        None \<Rightarrow> Inl (ValueError missing_key_message)
      | Some api_key \<Rightarrow>
          if api_key = [] then Inl (ValueError missing_key_message)
          else (case responses_create sv api_key (user_prompt raw_text) of
                  Inl e \<Rightarrow> Inl e
                | Inr json_text \<Rightarrow>
                    if json_text = [] \<or> strip json_text = []
                    then Inl (ValueError empty_response_message)
                    else (case json_loads sv json_text of
                            Inl (JSONDecodeError m) \<Rightarrow>
                              Inl (ValueError (invalid_json_message m json_text))
                          | Inl e \<Rightarrow> Inl e
                          | Inr data \<Rightarrow> Inr data)))"

section \<open>The renderer, serialised\<close>

definition create_word_bytes_from_requirements :: "services \<Rightarrow> json \<Rightarrow> py_exn + byte list" where
  "create_word_bytes_from_requirements sv data =
     (case document_content (py_repr sv) data of
        Inl e \<Rightarrow> Inl e
      | Inr doc \<Rightarrow> docx_save sv doc)"

section \<open>The form and the POST handler\<close>

text \<open>
  The page \<open>render_form_page\<close> returns is a fixed template; a page is given by what is
  put into its holes. The error block, when shown, holds the escaped message.
\<close>

record form_page =
  error_block :: "pystr option"
  text_checked :: pystr
  file_checked :: pystr
  text_display :: pystr
  file_display :: pystr
  textarea_value :: pystr
  project_key_value :: pystr

text \<open>The older template has no input mode.\<close>

record form_page_v1 =
  error_block_v1 :: "pystr option"
  textarea_value_v1 :: pystr
  project_key_value_v1 :: pystr

datatype html = Form form_page | FormV1 form_page_v1

datatype response =
    StreamingResponse (body: "byte list") (media_type: pystr) (headers: "(pystr \<times> pystr) list")
  | HTMLResponse (status_code: nat) (content: html)

definition shown_error :: "pystr option \<Rightarrow> pystr option" where
  "shown_error error_message =
     (case error_message of
        None \<Rightarrow> None
      | Some m \<Rightarrow> if m = [] then None else Some (html_escape m))"

definition render_form_page :: "pystr \<Rightarrow> pystr \<Rightarrow> pystr \<Rightarrow> pystr option \<Rightarrow> response" where
  "render_form_page conversation_text project_key input_mode error_message =
     HTMLResponse 200
       (Form \<lparr> error_block = shown_error error_message,
               text_checked = (if input_mode = lit ''text'' then lit ''checked'' else []),
               file_checked = (if input_mode = lit ''file'' then lit ''checked'' else []),
               text_display = (if input_mode = lit ''text'' then lit ''flex'' else lit ''none''),
               file_display = (if input_mode = lit ''file'' then lit ''flex'' else lit ''none''),
               textarea_value = html_escape conversation_text,
               project_key_value = html_escape project_key \<rparr>)"

definition upload_message :: pystr where
  "upload_message =
     lit ''Please upload a .txt or .docx file when '' @ quoted (lit ''Attachment'')
     @ lit '' is selected.''"

definition unsupported_message :: pystr where
  "unsupported_message = lit ''Only .txt and .docx files are supported.''"

definition enter_text_message :: pystr where
  "enter_text_message =
     lit ''Please enter some text when '' @ quoted (lit ''Text'') @ lit '' is selected.''"

text \<open>
  Where the raw text comes from (lines 562 to 585). An upload without a name makes
  \<open>filename.lower()\<close> raise.
\<close>

definition resolve_input :: "services \<Rightarrow> pystr \<Rightarrow> pystr \<Rightarrow> upload option \<Rightarrow> py_exn + pystr" where
  "resolve_input sv input_mode conversation_text upload_file =
     (if input_mode = lit ''file'' then
        (case upload_file of
           None \<Rightarrow> Inl (ValueError upload_message)
         | Some f \<Rightarrow>
             (case upload_filename f of
                None \<Rightarrow>
                  Inl (AttributeError (quoted (lit ''NoneType'') @ lit '' object has no attribute ''
                                       @ quoted (lit ''lower'')))
              | Some name \<Rightarrow>
                  if name = [] then Inl (ValueError upload_message)
                  else (let filename = lower name in
                        case upload_read f of
                          Inl e \<Rightarrow> Inl e
                        | Inr file_bytes \<Rightarrow>
                            if endswith filename (lit ''.txt'')
                            then Inr (decode_utf8_ignore file_bytes)
                            else if endswith filename (lit ''.docx'')
                            then (case docx_paragraphs sv file_bytes of
                                    Inl e \<Rightarrow> Inl e
                                  | Inr paragraphs \<Rightarrow> Inr (join_strs [10] paragraphs))
                            else Inl (ValueError unsupported_message))))
      else (let raw_text = strip conversation_text in
            if raw_text = [] then Inl (ValueError enter_text_message) else Inr raw_text))"

text \<open>\<open>data["project_key"] = project_key\<close>.\<close>

fun set_item :: "json \<Rightarrow> pystr \<Rightarrow> json \<Rightarrow> py_exn + json" where
  "set_item (JObj kvs) k v = Inr (JObj (AList.update k v kvs))"
| "set_item (JList xs) k v =
     Inl (TypeError (lit ''list indices must be integers or slices, not str''))"
| "set_item d k v =
     Inl (TypeError (quoted (type_name d) @ lit '' object does not support item assignment''))"

text \<open>\<open>data.get('project_key', 'PROJECT')\<close> inside the f-string of line 598.\<close>

fun download_name :: "services \<Rightarrow> json \<Rightarrow> py_exn + pystr" where
  "download_name sv (JObj data) =
     Inr (py_str (py_repr sv) (dict_get data (lit ''project_key'') (JStr (lit ''PROJECT'')))
          @ lit ''_requirements.docx'')"
| "download_name sv v =
     Inl (AttributeError (quoted (type_name v) @ lit '' object has no attribute '' @ quoted (lit ''get'')))"

definition docx_media_type :: pystr where
  "docx_media_type =
     lit ''application/vnd.openxmlformats-officedocument.wordprocessingml.document''"

text \<open>
  Constructing the \<open>StreamingResponse\<close> encodes each header as Latin-1, which raises a
  \<open>UnicodeEncodeError\<close>, a \<open>ValueError\<close>, on a code point above 255.
\<close>

definition streaming_response :: "byte list \<Rightarrow> pystr \<Rightarrow> py_exn + response" where
  "streaming_response doc_bytes filename =
     (let disposition = lit ''attachment; filename='' @ [34] @ filename @ [34] in
      if list_all (\<lambda>c. c < 256) disposition
      then Inr (StreamingResponse doc_bytes docx_media_type
                  [(lit ''Content-Disposition'', disposition)])
      else Inl (ValueError (latin1_error disposition)))"

text \<open>Steps 1 to 4 of both handlers, from the raw text on (lines 587 to 606).\<close>

definition generate_from :: "services \<Rightarrow> pystr \<Rightarrow> pystr \<Rightarrow> py_exn + response" where
  "generate_from sv raw_text project_key =
     (case generate_requirements_from_text sv raw_text of
        Inl e \<Rightarrow> Inl e
      | Inr extracted \<Rightarrow>
          (case (if project_key \<noteq> []
                 then set_item extracted (lit ''project_key'') (JStr project_key)
                 else Inr extracted) of
             Inl e \<Rightarrow> Inl e
           | Inr data \<Rightarrow>
               (case create_word_bytes_from_requirements sv data of
                  Inl e \<Rightarrow> Inl e
                | Inr doc_bytes \<Rightarrow>
                    (case download_name sv data of
                       Inl e \<Rightarrow> Inl e
                     | Inr filename \<Rightarrow> streaming_response doc_bytes filename))))"

text \<open>The body of the \<open>try\<close> of \<open>generate_word\<close> (lines 561 to 606).\<close>

definition generate_word_try ::
    "services \<Rightarrow> pystr \<Rightarrow> pystr \<Rightarrow> pystr \<Rightarrow> upload option \<Rightarrow> py_exn + response" where
  "generate_word_try sv conversation_text project_key input_mode upload_file =
     (case resolve_input sv input_mode conversation_text upload_file of
        Inl e \<Rightarrow> Inl e
      | Inr raw_text \<Rightarrow> generate_from sv raw_text project_key)"

definition generic_prefix :: pystr where
  "generic_prefix =
     lit (''Something went wrong while generating the Word file. ''
          @ ''Please try again or contact support. '' @ ''Details: '')"


text \<open>\<open>generate_word\<close> (lines 553 to 628): the \<open>try\<close> and its two handlers.\<close>

definition generate_word ::
    "services \<Rightarrow> pystr \<Rightarrow> pystr \<Rightarrow> pystr \<Rightarrow> upload option \<Rightarrow> response" where
  "generate_word sv conversation_text project_key input_mode upload_file =
     (case generate_word_try sv conversation_text project_key input_mode upload_file of
        Inr response \<Rightarrow> response
      | Inl e \<Rightarrow>
          if is_ValueError e
          then render_form_page conversation_text project_key input_mode (Some (exn_str e))
          else render_form_page conversation_text project_key input_mode
                 (Some (generic_prefix @ exn_str e)))"

section \<open>The older handler\<close>

text \<open>
  The older file has the same extractor and renderer. Its form takes no input mode and
  no file, its \<open>project_key\<close> may be \<open>None\<close>, and its handler hands the conversation
  text to the extractor as it is.
\<close>

definition render_form_page_v1 :: "pystr \<Rightarrow> pystr \<Rightarrow> pystr option \<Rightarrow> response" where
  "render_form_page_v1 conversation_text project_key error_message =
     HTMLResponse 200
       (FormV1 \<lparr> error_block_v1 = shown_error error_message,
                 textarea_value_v1 = html_escape conversation_text,
                 project_key_value_v1 = html_escape project_key \<rparr>)"

definition or_empty :: "pystr option \<Rightarrow> pystr" where
  "or_empty project_key = (case project_key of None \<Rightarrow> [] | Some k \<Rightarrow> k)"

definition generate_word_v1 :: "services \<Rightarrow> pystr \<Rightarrow> pystr option \<Rightarrow> response" where
  "generate_word_v1 sv conversation_text project_key =
     (case generate_from sv conversation_text (or_empty project_key) of
        Inr response \<Rightarrow> response
      | Inl e \<Rightarrow>
          if is_ValueError e
          then render_form_page_v1 conversation_text (or_empty project_key) (Some (exn_str e))
          else render_form_page_v1 conversation_text (or_empty project_key)
                 (Some (generic_prefix @ exn_str e)))"

text \<open>
  Comparing a response of the older handler with one of the newer: the same attachment,
  or forms with the same status that show the same error, conversation text and project
  key, each in its own template.
\<close>

fun same_outcome :: "response \<Rightarrow> response \<Rightarrow> bool" where
  "same_outcome (StreamingResponse b m h) (StreamingResponse b' m' h') =
     (b = b' \<and> m = m' \<and> h = h')"
| "same_outcome (HTMLResponse s (FormV1 p)) (HTMLResponse s' (Form q)) =
     (s = s' \<and> error_block_v1 p = error_block q \<and> textarea_value_v1 p = textarea_value q
      \<and> project_key_value_v1 p = project_key_value q)"
| "same_outcome r r' = False"

section \<open>Sample collaborators\<close>

text \<open>
  Collaborators for concrete runs: an environment that holds the key or not, a service
  with one answer to every prompt, a parser with one verdict, an uploaded document of two
  paragraphs, a serialiser that returns two bytes, and a \<open>repr\<close> that is never needed on
  the sample data.
\<close>

definition empty_repr :: "json \<Rightarrow> pystr" where
  "empty_repr v = []"

definition sample_services :: "pystr option \<Rightarrow> py_exn + pystr \<Rightarrow> py_exn + json \<Rightarrow> services" where
  "sample_services key output parsed =
     \<lparr> getenv = (\<lambda>name. if name = lit ''OPENAI_API_KEY'' then key else None),
       responses_create = (\<lambda>api_key prompt. output),
       json_loads = (\<lambda>json_text. parsed),
       docx_paragraphs = (\<lambda>file_bytes. Inr [lit ''Login page'', lit ''Reset link'']),
       docx_save = (\<lambda>doc. Inr [80, 75]),
       py_repr = empty_repr \<rparr>"

section \<open>Properties of the renderer\<close>

subsection \<open>Dictionaries and joins\<close>

lemma dict_get_delete_other:
  "k' \<noteq> k \<Longrightarrow> dict_get (AList.delete k kvs) k' d = dict_get kvs k' d"
  by (simp add: dict_get_def delete_conv')

lemma dict_get_delete_same: "dict_get (AList.delete k kvs) k d = d"
  by (simp add: dict_get_def delete_conv')

lemma dependencies_key_distinct:
  "lit ''id'' \<noteq> lit ''dependencies''" "lit ''issue_type'' \<noteq> lit ''dependencies''"
  "lit ''summary'' \<noteq> lit ''dependencies''" "lit ''description'' \<noteq> lit ''dependencies''"
  "lit ''priority'' \<noteq> lit ''dependencies''" "lit ''story_points'' \<noteq> lit ''dependencies''"
  "lit ''acceptance_criteria'' \<noteq> lit ''dependencies''"
  by (simp_all add: lit_def)

lemma str_items_map_JStr: "str_items (map JStr ss) i = Inr ss"
  by (induction ss arbitrary: i) simp_all

lemma is_str_list_items: "list_all is_str xs \<Longrightarrow> \<exists>ss. xs = map JStr ss"
proof (induction xs)
  case Nil
  then show ?case by simp
next
  case (Cons x xs)
  then obtain ss where "xs = map JStr ss" by auto
  moreover from Cons.prems obtain s where "x = JStr s" by (cases x) simp_all
  ultimately have "x # xs = map JStr (s # ss)" by simp
  then show ?case by (rule exI[of _ "s # ss"])
qed


lemma dependencies_blocks_strs:
  "dependencies_blocks (JList (map JStr ss)) =
     Inr (if ss = [] then []
          else [Paragraph (JStr []) None
                  [bold_run ''Dependencies: '', plain_run (JStr (join_strs (lit '', '') ss))]])"
  by (simp add: dependencies_blocks_def str_items_map_JStr)

subsection \<open>One requirement\<close>

text \<open>The elements of one requirement, once its two fallible steps have succeeded.\<close>

lemma requirement_blocks_sections:
  assumes "dependencies_blocks (dict_get req (lit ''dependencies'') (JList [])) = Inr deps"
    and "py_iter (dict_get req (lit ''acceptance_criteria'') (JList [])) = Inr criteria"
  shows "requirement_blocks rp (JObj req)
         = Inr (section_head rp req @ deps @ section_tail req criteria)"
  using assms by (simp add: Let_def section_head_def section_tail_def)

lemma requirement_blocks_criteria:
  assumes "dependencies_blocks (dict_get req (lit ''dependencies'') (JList [])) = Inr deps"
    and "requirement_blocks rp (JObj req) = Inr blocks"
  shows "\<exists>criteria. py_iter (dict_get req (lit ''acceptance_criteria'') (JList [])) = Inr criteria"
  using assms by (auto simp: Let_def split: sum.splits)

lemma no_dependencies_line_outside:
  "\<not> list_ex is_dependencies_line (section_head rp req @ section_tail req criteria)"
  by (simp add: section_head_def section_tail_def meta_runs_def list_ex_iff lit_def image_iff)

text \<open>
  C10. A requirement whose \<open>dependencies\<close> key is present with the empty list renders
  exactly as the same requirement with the key removed, and no dependencies line is among
  its elements: the test on line 168 is on the truth value of the list, not on the
  presence of the key.
\<close>

theorem empty_dependencies_as_absent:
  assumes "map_of req (lit ''dependencies'') = Some (JList [])"
  shows "requirement_blocks rp (JObj req)
           = requirement_blocks rp (JObj (AList.delete (lit ''dependencies'') req))
         \<and> (\<forall>blocks. requirement_blocks rp (JObj req) = Inr blocks
               \<longrightarrow> \<not> list_ex is_dependencies_line blocks)"
proof -
  have empty: "dict_get req (lit ''dependencies'') (JList []) = JList []"
    using assms by (simp add: dict_get_def)
  have same: "requirement_blocks rp (JObj req)
              = requirement_blocks rp (JObj (AList.delete (lit ''dependencies'') req))"
    by (simp add: empty dict_get_delete_same dict_get_delete_other dependencies_key_distinct)
  have none: "\<not> list_ex is_dependencies_line blocks"
    if run: "requirement_blocks rp (JObj req) = Inr blocks" for blocks
  proof -
    have deps: "dependencies_blocks (dict_get req (lit ''dependencies'') (JList [])) = Inr []"
      by (simp add: empty dependencies_blocks_def)
    from requirement_blocks_criteria [OF deps run] obtain criteria
      where "py_iter (dict_get req (lit ''acceptance_criteria'') (JList [])) = Inr criteria" ..
    from requirement_blocks_sections [OF deps this, of rp] run
    have "blocks = section_head rp req @ section_tail req criteria" by simp
    then show ?thesis by (simp only: no_dependencies_line_outside not_False_eq_True)
  qed
  from same none show ?thesis by blast
qed

theorem empty_dependencies_as_absent_witness:
  "requirement_blocks empty_repr (JObj [(lit ''id'', JStr (lit ''REQ-1'')), (lit ''dependencies'', JList [])])
     = requirement_blocks empty_repr (JObj [(lit ''id'', JStr (lit ''REQ-1''))])
   \<and> \<not> list_ex is_dependencies_line
         [Heading 1 (JStr (lit ''REQ-1: '')) [],
          Paragraph (JStr []) None
            [bold_run ''Issue Type: '', plain_run (JStr (lit ''Story'')),
             bold_run ''   |   Priority: '', plain_run (JStr (lit ''Medium''))],
          Heading 2 (JStr (lit ''Description'')) [],
          Paragraph (JStr []) None [],
          Heading 2 (JStr (lit ''Acceptance Criteria'')) [],
          PageBreak]"
proof -
  have key: "map_of [(lit ''id'', JStr (lit ''REQ-1'')), (lit ''dependencies'', JList [])]
               (lit ''dependencies'') = Some (JList [])"
    by (simp add: lit_def)
  have run: "requirement_blocks empty_repr
               (JObj [(lit ''id'', JStr (lit ''REQ-1'')), (lit ''dependencies'', JList [])])
             = Inr [Heading 1 (JStr (lit ''REQ-1: '')) [],
                    Paragraph (JStr []) None
                      [bold_run ''Issue Type: '', plain_run (JStr (lit ''Story'')),
                       bold_run ''   |   Priority: '', plain_run (JStr (lit ''Medium''))],
                    Heading 2 (JStr (lit ''Description'')) [],
                    Paragraph (JStr []) None [],
                    Heading 2 (JStr (lit ''Acceptance Criteria'')) [],
                    PageBreak]"
    by (simp add: lit_def dict_get_def dependencies_blocks_def meta_runs_def)
  have del: "AList.delete (lit ''dependencies'')
               [(lit ''id'', JStr (lit ''REQ-1'')), (lit ''dependencies'', JList [])]
             = [(lit ''id'', JStr (lit ''REQ-1''))]"
    by (simp add: lit_def AList.delete_eq)
  note inst = empty_dependencies_as_absent [OF key, of empty_repr, unfolded del]
  from inst run show ?thesis by blast
qed



subsection \<open>The whole document\<close>

lemma requirements_loop_append:
  "list_all (\<lambda>r. \<exists>blocks. requirement_blocks rp r = Inr blocks) reqs \<Longrightarrow>
   requirements_loop rp reqs doc
   = Inr (doc @ concat (map (\<lambda>r. projr (requirement_blocks rp r)) reqs))"
proof (induction reqs arbitrary: doc)
  case Nil
  then show ?case by simp
next
  case (Cons r reqs)
  from Cons.prems obtain blocks where r: "requirement_blocks rp r = Inr blocks" by auto
  from Cons.prems have "list_all (\<lambda>r. \<exists>blocks. requirement_blocks rp r = Inr blocks) reqs"
    by simp
  from Cons.IH [OF this, of "doc @ blocks"] r show ?case by simp
qed

lemma field_str_list:
  assumes "field_ok req k is_str_list"
  shows "\<exists>ss. dict_get req (lit k) (JList []) = JList (map JStr ss)"
proof (cases "map_of req (lit k)")
  case None
  then have "dict_get req (lit k) (JList []) = JList (map JStr [])" by (simp add: dict_get_def)
  then show ?thesis by (rule exI)
next
  case (Some v)
  with assms have "is_str_list v" by (simp add: field_ok_def)
  then obtain xs where v: "v = JList xs" and "list_all is_str xs" by (cases v) simp_all
  from is_str_list_items [OF this(2)] obtain ss where "xs = map JStr ss" ..
  with v Some have "dict_get req (lit k) (JList []) = JList (map JStr ss)"
    by (simp add: dict_get_def)
  then show ?thesis by (rule exI)
qed

lemma schema_renders:
  assumes "requirement_schema r"
  shows "\<exists>req deps criteria. r = JObj req
           \<and> requirement_blocks rp r = Inr (section_head rp req @ deps @ section_tail req criteria)
           \<and> list_all (\<lambda>b. \<not> is_heading1 b \<and> \<not> is_page_break b) deps"
proof -
  from assms obtain req where r: "r = JObj req" by (cases r) simp_all
  with assms have d: "field_ok req ''dependencies'' is_str_list"
    and a: "field_ok req ''acceptance_criteria'' is_str_list" by simp_all
  from field_str_list [OF d] obtain ds
    where ds: "dict_get req (lit ''dependencies'') (JList []) = JList (map JStr ds)" ..
  from field_str_list [OF a] obtain cs
    where cs: "dict_get req (lit ''acceptance_criteria'') (JList []) = JList (map JStr cs)" ..
  let ?deps = "if ds = [] then []
          else [Paragraph (JStr []) None
                  [bold_run ''Dependencies: '', plain_run (JStr (join_strs (lit '', '') ds))]]"
  have deps: "dependencies_blocks (dict_get req (lit ''dependencies'') (JList [])) = Inr ?deps"
    by (simp only: ds dependencies_blocks_strs)
  have crit: "py_iter (dict_get req (lit ''acceptance_criteria'') (JList [])) = Inr (map JStr cs)"
    by (simp add: cs)
  have "requirement_blocks rp r = Inr (section_head rp req @ ?deps @ section_tail req (map JStr cs))"
    unfolding r using deps crit by (rule requirement_blocks_sections)
  moreover have "list_all (\<lambda>b. \<not> is_heading1 b \<and> \<not> is_page_break b) ?deps" by simp
  ultimately show ?thesis using r by (intro exI conjI)
qed

lemma section_shape:
  assumes "list_all (\<lambda>b. \<not> is_heading1 b \<and> \<not> is_page_break b) deps"
  shows "hd (section_head rp req @ deps @ section_tail req criteria)
           = Heading 1 (JStr (py_str rp (dict_get req (lit ''id'') (JStr (lit ''REQ-?'')))
                              @ lit '': '' @ py_str rp (dict_get req (lit ''summary'') (JStr [])))) []"
    and "last (section_head rp req @ deps @ section_tail req criteria) = PageBreak"
    and "length (filter is_heading1 (section_head rp req @ deps @ section_tail req criteria)) = 1"
    and "length (filter is_page_break (section_head rp req @ deps @ section_tail req criteria)) = 1"
proof -
  show "hd (section_head rp req @ deps @ section_tail req criteria)
           = Heading 1 (JStr (py_str rp (dict_get req (lit ''id'') (JStr (lit ''REQ-?'')))
                              @ lit '': '' @ py_str rp (dict_get req (lit ''summary'') (JStr [])))) []"
    by (simp add: section_head_def)
  show "last (section_head rp req @ deps @ section_tail req criteria) = PageBreak"
    by (simp add: section_tail_def)
  have h: "filter is_heading1 deps = []" and p: "filter is_page_break deps = []"
    using assms by (simp_all add: filter_empty_conv list_all_iff)
  show "length (filter is_heading1 (section_head rp req @ deps @ section_tail req criteria)) = 1"
    by (simp add: h section_head_def section_tail_def filter_map comp_def)
  show "length (filter is_page_break (section_head rp req @ deps @ section_tail req criteria)) = 1"
    by (simp add: p section_head_def section_tail_def filter_map comp_def)
qed

text \<open>
  C1. For a requirement set whose \<open>requirements\<close> is a list of \<open>N\<close> requirements of the
  expected shape, the document is the introduction followed by \<open>N\<close> sections, the
  \<open>i\<close>-th section being the rendering of the \<open>i\<close>-th requirement of the input. Each
  section opens with the level-1 heading \<open>id: summary\<close>, closes with a page break, and
  holds no other level-1 heading and no other page break.
\<close>

theorem requirement_sections:
  assumes "map_of data (lit ''requirements'') = Some (JList reqs)"
    and "list_all requirement_schema reqs"
  shows "\<exists>sections.
           document_content rp (JObj data)
             = Inr (document_intro rp (dict_get data (lit ''project_key'') (JStr (lit ''PROJECT'')))
                    @ concat sections)
         \<and> length sections = length reqs
         \<and> (\<forall>i<length reqs. \<exists>req.
               reqs ! i = JObj req
             \<and> requirement_blocks rp (reqs ! i) = Inr (sections ! i)
             \<and> hd (sections ! i)
                 = Heading 1 (JStr (py_str rp (dict_get req (lit ''id'') (JStr (lit ''REQ-?'')))
                                    @ lit '': ''
                                    @ py_str rp (dict_get req (lit ''summary'') (JStr [])))) []
             \<and> last (sections ! i) = PageBreak
             \<and> length (filter is_heading1 (sections ! i)) = 1
             \<and> length (filter is_page_break (sections ! i)) = 1)"
proof -
  let ?sections = "map (\<lambda>r. projr (requirement_blocks rp r)) reqs"
  have each: "\<exists>blocks. requirement_blocks rp r = Inr blocks" if "requirement_schema r" for r
    using schema_renders [OF that, of rp] by blast
  with assms(2) have "list_all (\<lambda>r. \<exists>blocks. requirement_blocks rp r = Inr blocks) reqs"
    by (simp add: list_all_iff)
  from requirements_loop_append [OF this]
  have loop: "requirements_loop rp reqs doc = Inr (doc @ concat ?sections)" for doc .
  have reqs: "dict_get data (lit ''requirements'') (JList []) = JList reqs"
    using assms(1) by (simp add: dict_get_def)
  have doc: "document_content rp (JObj data)
             = Inr (document_intro rp (dict_get data (lit ''project_key'') (JStr (lit ''PROJECT'')))
                    @ concat ?sections)"
    by (simp add: Let_def reqs loop)
  have shape: "\<exists>req.
               reqs ! i = JObj req
             \<and> requirement_blocks rp (reqs ! i) = Inr (?sections ! i)
             \<and> hd (?sections ! i)
                 = Heading 1 (JStr (py_str rp (dict_get req (lit ''id'') (JStr (lit ''REQ-?'')))
                                    @ lit '': ''
                                    @ py_str rp (dict_get req (lit ''summary'') (JStr [])))) []
             \<and> last (?sections ! i) = PageBreak
             \<and> length (filter is_heading1 (?sections ! i)) = 1
             \<and> length (filter is_page_break (?sections ! i)) = 1" if i: "i < length reqs" for i
  proof -
    from assms(2) i have "requirement_schema (reqs ! i)" by (simp add: list_all_length)
    from schema_renders [OF this, of rp] obtain req deps criteria
      where r: "reqs ! i = JObj req"
        and b: "requirement_blocks rp (reqs ! i)
                = Inr (section_head rp req @ deps @ section_tail req criteria)"
        and d: "list_all (\<lambda>b. \<not> is_heading1 b \<and> \<not> is_page_break b) deps"
      by blast
    from i b have s: "?sections ! i = section_head rp req @ deps @ section_tail req criteria"
      by simp
    note sh = section_shape [OF d, of rp req criteria]
    show ?thesis
      by (rule exI [of _ req]) (simp only: r [symmetric] b s sh simp_thms)
  qed
  from doc shape show ?thesis
    by (intro exI [of _ ?sections] conjI allI impI) simp_all
qed

theorem requirement_sections_witness:
  "\<exists>sections.
     document_content empty_repr
       (JObj [(lit ''project_key'', JStr (lit ''AUTH'')),
              (lit ''requirements'',
               JList [JObj [(lit ''id'', JStr (lit ''REQ-1'')),
                            (lit ''summary'', JStr (lit ''Password reset via email'')),
                            (lit ''story_points'', JInt 3)],
                      JObj [(lit ''id'', JStr (lit ''REQ-2'')),
                            (lit ''summary'', JStr (lit ''Audit log'')),
                            (lit ''dependencies'', JList [JStr (lit ''REQ-1'')])]])])
       = Inr (document_intro empty_repr (JStr (lit ''AUTH'')) @ concat sections)
     \<and> length sections = 2
     \<and> hd (sections ! 0) = Heading 1 (JStr (lit ''REQ-1: Password reset via email'')) []
     \<and> last (sections ! 0) = PageBreak
     \<and> hd (sections ! 1) = Heading 1 (JStr (lit ''REQ-2: Audit log'')) []
     \<and> last (sections ! 1) = PageBreak"
proof -
  let ?r1 = "[(lit ''id'', JStr (lit ''REQ-1'')),
              (lit ''summary'', JStr (lit ''Password reset via email'')),
              (lit ''story_points'', JInt 3)]"
  let ?r2 = "[(lit ''id'', JStr (lit ''REQ-2'')),
              (lit ''summary'', JStr (lit ''Audit log'')),
              (lit ''dependencies'', JList [JStr (lit ''REQ-1'')])]"
  let ?reqs = "[JObj ?r1, JObj ?r2]"
  let ?data = "[(lit ''project_key'', JStr (lit ''AUTH'')), (lit ''requirements'', JList ?reqs)]"
  have present: "map_of ?data (lit ''requirements'') = Some (JList ?reqs)"
    by (simp add: lit_def)
  have schema: "list_all requirement_schema ?reqs"
    by (simp add: field_ok_def lit_def)
  have key: "dict_get ?data (lit ''project_key'') (JStr (lit ''PROJECT'')) = JStr (lit ''AUTH'')"
    by (simp add: dict_get_def lit_def)
  have h1: "py_str empty_repr (dict_get ?r1 (lit ''id'') (JStr (lit ''REQ-?''))) @ lit '': ''
            @ py_str empty_repr (dict_get ?r1 (lit ''summary'') (JStr []))
            = lit ''REQ-1: Password reset via email''"
    by (simp add: dict_get_def lit_def)
  have h2: "py_str empty_repr (dict_get ?r2 (lit ''id'') (JStr (lit ''REQ-?''))) @ lit '': ''
            @ py_str empty_repr (dict_get ?r2 (lit ''summary'') (JStr []))
            = lit ''REQ-2: Audit log''"
    by (simp add: dict_get_def lit_def)
  from requirement_sections [OF present schema, of empty_repr]
  obtain sections
    where doc: "document_content empty_repr (JObj ?data)
                = Inr (document_intro empty_repr
                         (dict_get ?data (lit ''project_key'') (JStr (lit ''PROJECT'')))
                       @ concat sections)"
      and len: "length sections = length ?reqs"
      and each: "\<And>i. i < length ?reqs \<Longrightarrow> \<exists>req.
               ?reqs ! i = JObj req
             \<and> requirement_blocks empty_repr (?reqs ! i) = Inr (sections ! i)
             \<and> hd (sections ! i)
                 = Heading 1 (JStr (py_str empty_repr (dict_get req (lit ''id'') (JStr (lit ''REQ-?'')))
                                    @ lit '': ''
                                    @ py_str empty_repr (dict_get req (lit ''summary'') (JStr [])))) []
             \<and> last (sections ! i) = PageBreak
             \<and> length (filter is_heading1 (sections ! i)) = 1
             \<and> length (filter is_page_break (sections ! i)) = 1"
    by (elim exE conjE) blast
  from each [of 0] obtain req0 where "?reqs ! 0 = JObj req0"
    and "hd (sections ! 0)
         = Heading 1 (JStr (py_str empty_repr (dict_get req0 (lit ''id'') (JStr (lit ''REQ-?'')))
                            @ lit '': ''
                            @ py_str empty_repr (dict_get req0 (lit ''summary'') (JStr [])))) []"
    and l0: "last (sections ! 0) = PageBreak"
    by auto
  then have s0: "hd (sections ! 0) = Heading 1 (JStr (lit ''REQ-1: Password reset via email'')) []"
    using h1 by simp
  from each [of 1] obtain req1 where "?reqs ! 1 = JObj req1"
    and "hd (sections ! 1)
         = Heading 1 (JStr (py_str empty_repr (dict_get req1 (lit ''id'') (JStr (lit ''REQ-?'')))
                            @ lit '': ''
                            @ py_str empty_repr (dict_get req1 (lit ''summary'') (JStr [])))) []"
    and l1: "last (sections ! 1) = PageBreak"
    by auto
  then have s1: "hd (sections ! 1) = Heading 1 (JStr (lit ''REQ-2: Audit log'')) []"
    using h2 by simp
  from len have len2: "length sections = 2" by simp
  from doc have doc': "document_content empty_repr (JObj ?data)
                = Inr (document_intro empty_repr (JStr (lit ''AUTH'')) @ concat sections)"
    by (simp only: key)
  from doc' len2 s0 l0 s1 l1 show ?thesis by (intro exI conjI)
qed

subsection \<open>Story points\<close>




section \<open>Properties of the input resolver\<close>

subsection \<open>Trimming\<close>

lemma strip_empty_iff: "strip s = [] \<longleftrightarrow> list_all is_space s"
proof -
  have "strip s = [] \<longleftrightarrow> (\<forall>c\<in>set (dropWhile is_space s). is_space c)"
    by (simp add: strip_def)
  also have "\<dots> \<longleftrightarrow> dropWhile is_space s = []"
  proof
    assume all: "\<forall>c\<in>set (dropWhile is_space s). is_space c"
    show "dropWhile is_space s = []"
    proof (rule ccontr)
      assume ne: "dropWhile is_space s \<noteq> []"
      then have "\<not> is_space (hd (dropWhile is_space s))" by (rule hd_dropWhile)
      moreover from ne have "hd (dropWhile is_space s) \<in> set (dropWhile is_space s)"
        by (rule hd_in_set)
      ultimately show False using all by blast
    qed
  next
    assume "dropWhile is_space s = []"
    then show "\<forall>c\<in>set (dropWhile is_space s). is_space c" by (simp only: list.set ball_empty)
  qed
  also have "\<dots> \<longleftrightarrow> list_all is_space s"
    by (simp add: list_all_iff)
  finally show ?thesis .
qed

lemma strip_decompose:
  "s = takeWhile is_space s @ strip s
       @ rev (takeWhile is_space (rev (dropWhile is_space s)))"
proof -
  let ?d = "dropWhile is_space s"
  have "?d = rev (takeWhile is_space (rev ?d) @ dropWhile is_space (rev ?d))"
    by (simp only: takeWhile_dropWhile_id rev_rev_ident)
  also have "\<dots> = rev (dropWhile is_space (rev ?d)) @ rev (takeWhile is_space (rev ?d))"
    by (rule rev_append)
  finally have "?d = strip s @ rev (takeWhile is_space (rev ?d))"
    by (simp only: strip_def)
  then have "takeWhile is_space s @ ?d
             = takeWhile is_space s @ strip s @ rev (takeWhile is_space (rev ?d))"
    by (rule arg_cong)
  then show ?thesis by (simp only: takeWhile_dropWhile_id)
qed

lemma last_dropWhile: "dropWhile P xs \<noteq> [] \<Longrightarrow> last (dropWhile P xs) = last xs"
proof -
  assume ne: "dropWhile P xs \<noteq> []"
  have "last xs = last (takeWhile P xs @ dropWhile P xs)" by simp
  also have "\<dots> = last (dropWhile P xs)" using ne by (rule last_appendR)
  finally show ?thesis by simp
qed

lemma strip_ends:
  assumes "strip s \<noteq> []"
  shows "\<not> is_space (hd (strip s))" and "\<not> is_space (last (strip s))"
proof -
  let ?d = "dropWhile is_space s"
  let ?e = "dropWhile is_space (rev ?d)"
  from assms have e: "?e \<noteq> []" by (simp add: strip_def)
  have d: "?d \<noteq> []"
  proof
    assume nil: "?d = []"
    have "?e = []" unfolding nil by simp
    with e show False by contradiction
  qed
  have "last (strip s) = hd ?e" using e by (simp add: strip_def last_rev)
  moreover have "\<not> is_space (hd ?e)" using e by (rule hd_dropWhile)
  ultimately show "\<not> is_space (last (strip s))" by simp
  have "hd (strip s) = last ?e" using e by (simp add: strip_def hd_rev)
  also have "\<dots> = last (rev ?d)" using e by (rule last_dropWhile)
  also have "\<dots> = hd ?d" using d by (simp add: last_rev)
  finally have "hd (strip s) = hd ?d" .
  moreover have "\<not> is_space (hd ?d)" using d by (rule hd_dropWhile)
  ultimately show "\<not> is_space (hd (strip s))" by simp
qed

text \<open>
  C5. In any mode other than \<open>file\<close>, and so in \<open>text\<close> mode, a text field that is empty
  or holds white space only is refused with the message of line 585, a \<open>ValueError\<close>. Any
  other text resolves to \<open>strip\<close> of it: the text without a leading and a trailing run
  of white space, itself beginning and ending with a character that is not white space.
\<close>

theorem text_mode_resolution:
  assumes "input_mode \<noteq> lit ''file''"
  shows "(list_all is_space conversation_text \<longrightarrow>
            resolve_input sv input_mode conversation_text upload_file
              = Inl (ValueError enter_text_message))
       \<and> (\<not> list_all is_space conversation_text \<longrightarrow>
            resolve_input sv input_mode conversation_text upload_file
              = Inr (strip conversation_text)
          \<and> (\<exists>leading trailing.
                conversation_text = leading @ strip conversation_text @ trailing
              \<and> list_all is_space leading \<and> list_all is_space trailing)
          \<and> \<not> is_space (hd (strip conversation_text))
          \<and> \<not> is_space (last (strip conversation_text)))"
proof (intro conjI impI)
  assume "list_all is_space conversation_text"
  then have "strip conversation_text = []" by (simp only: strip_empty_iff)
  with assms show "resolve_input sv input_mode conversation_text upload_file
                   = Inl (ValueError enter_text_message)"
    by (simp add: resolve_input_def)
next
  assume "\<not> list_all is_space conversation_text"
  then have ne: "strip conversation_text \<noteq> []" by (simp only: strip_empty_iff not_False_eq_True)
  with assms show "resolve_input sv input_mode conversation_text upload_file
                   = Inr (strip conversation_text)"
    by (simp add: resolve_input_def)
  from ne show "\<not> is_space (hd (strip conversation_text))" by (rule strip_ends)
  from ne show "\<not> is_space (last (strip conversation_text))" by (rule strip_ends)
  let ?leading = "takeWhile is_space conversation_text"
  let ?trailing = "rev (takeWhile is_space (rev (dropWhile is_space conversation_text)))"
  have "list_all is_space ?leading" and "list_all is_space ?trailing"
    by (auto simp: list_all_iff dest: set_takeWhileD)
  with strip_decompose [of conversation_text]
  show "\<exists>leading trailing.
          conversation_text = leading @ strip conversation_text @ trailing
        \<and> list_all is_space leading \<and> list_all is_space trailing"
    by blast
qed

theorem text_mode_resolution_witness:
  "resolve_input (sample_services None (Inr []) (Inr JNull)) (lit ''text'') [32, 10, 9] None
     = Inl (ValueError enter_text_message)
   \<and> resolve_input (sample_services None (Inr []) (Inr JNull)) (lit ''text'')
         ([32, 10] @ lit ''Users reset passwords'' @ [160, 10]) None
       = Inr (lit ''Users reset passwords'')"
proof -
  let ?sv = "sample_services None (Inr []) (Inr JNull)"
  let ?text = "[32, 10] @ lit ''Users reset passwords'' @ [160, 10]"
  have mode: "lit ''text'' \<noteq> lit ''file''" by (simp add: lit_def)
  have blank: "list_all is_space [32, 10, 9]" by (simp add: is_space_def)
  have filled: "\<not> list_all is_space ?text" by (simp add: is_space_def lit_def)
  have trimmed: "strip ?text = lit ''Users reset passwords''"
    by (simp add: strip_def is_space_def lit_def)
  from text_mode_resolution [OF mode, of "[32, 10, 9]" ?sv None] blank
  have "resolve_input ?sv (lit ''text'') [32, 10, 9] None = Inl (ValueError enter_text_message)"
    by (rule conjunct1 [THEN mp])
  moreover from text_mode_resolution [OF mode, of ?text ?sv None] filled
  have "resolve_input ?sv (lit ''text'') ?text None = Inr (strip ?text)"
    by (rule conjunct2 [THEN mp, THEN conjunct1])
  then have "resolve_input ?sv (lit ''text'') ?text None = Inr (lit ''Users reset passwords'')"
    by (simp only: trimmed)
  ultimately show ?thesis by (rule conjI)
qed

subsection \<open>Uploaded files\<close>




lemma utf8_ignore_ascii: "list_all (\<lambda>b. b < 128) bs \<Longrightarrow> utf8_ignore bs = bs"
  by (induction bs rule: utf8_ignore.induct) simp_all




section \<open>Properties of the extractor\<close>

lemma preview_length: "length (preview json_text) \<le> 200"
  by (simp add: preview_def replace_newlines_def)

lemma preview_one_line: "10 \<notin> set (preview json_text)"
  by (auto simp: preview_def replace_newlines_def)

lemma preview_prefix:
  "10 \<notin> set (take 200 json_text) \<Longrightarrow> preview json_text = take 200 json_text"
  by (auto simp: preview_def replace_newlines_def intro!: map_idI)

lemma preview_pointwise:
  assumes "i < length (preview json_text)"
  shows "preview json_text ! i = (if json_text ! i = 10 then 32 else json_text ! i)"
  using assms by (simp add: preview_def replace_newlines_def)

text \<open>The three messages differ, whatever the parser's error and the answer are.\<close>

lemma extractor_messages_distinct:
  "missing_key_message \<noteq> empty_response_message"
  "invalid_json_message parser_error json_text \<noteq> missing_key_message"
  "invalid_json_message parser_error json_text \<noteq> empty_response_message"
  by (simp_all add: missing_key_message_def empty_response_message_def invalid_json_message_def
      lit_def)

text \<open>
  C2. The three failures of the extractor are \<open>ValueError\<close>s told apart by their
  messages. Without the key in the environment the message is that of line 25. With a key
  and an answer of the service that is empty or white space only, it is that of line 97.
  With an answer the parser rejects, it names the parser's error and ends with the
  preview: the first 200 characters of the answer (all of it when shorter), each line
  feed shown as a space, hence the very prefix when it holds no line feed. With an answer
  the parser accepts, the parsed value is returned.
\<close>

theorem extraction_outcomes:
  "(getenv sv (lit ''OPENAI_API_KEY'') = None \<longrightarrow>
      generate_requirements_from_text sv raw_text = Inl (ValueError missing_key_message))
   \<and> (\<forall>api_key json_text.
         getenv sv (lit ''OPENAI_API_KEY'') = Some api_key \<and> api_key \<noteq> []
         \<and> responses_create sv api_key (user_prompt raw_text) = Inr json_text \<longrightarrow>
           (list_all is_space json_text \<longrightarrow>
              generate_requirements_from_text sv raw_text
                = Inl (ValueError empty_response_message))
         \<and> (\<not> list_all is_space json_text \<longrightarrow>
              (\<forall>parser_error. json_loads sv json_text = Inl (JSONDecodeError parser_error) \<longrightarrow>
                 generate_requirements_from_text sv raw_text
                   = Inl (ValueError (lit ''Model output was not valid JSON. Error: ''
                                      @ parser_error @ lit ''. Output preview: ''
                                      @ preview json_text))
                 \<and> length (preview json_text) \<le> 200
                 \<and> length (preview json_text) = min 200 (length json_text)
                 \<and> (10 \<notin> set (take 200 json_text) \<longrightarrow>
                       preview json_text = take 200 json_text)
                 \<and> (\<forall>i < length (preview json_text).
                       preview json_text ! i
                       = (if json_text ! i = 10 then 32 else json_text ! i)))
            \<and> (\<forall>data. json_loads sv json_text = Inr data \<longrightarrow>
                  generate_requirements_from_text sv raw_text = Inr data)))"
proof (intro conjI allI impI)
  assume "getenv sv (lit ''OPENAI_API_KEY'') = None"
  then show "generate_requirements_from_text sv raw_text = Inl (ValueError missing_key_message)"
    by (simp add: generate_requirements_from_text_def)
next
  fix api_key json_text
  assume call: "getenv sv (lit ''OPENAI_API_KEY'') = Some api_key \<and> api_key \<noteq> []
                \<and> responses_create sv api_key (user_prompt raw_text) = Inr json_text"
  assume "list_all is_space json_text"
  then have "strip json_text = []" by (simp only: strip_empty_iff)
  with call show "generate_requirements_from_text sv raw_text
                  = Inl (ValueError empty_response_message)"
    by (simp add: generate_requirements_from_text_def)
next
  fix api_key json_text parser_error
  assume call: "getenv sv (lit ''OPENAI_API_KEY'') = Some api_key \<and> api_key \<noteq> []
                \<and> responses_create sv api_key (user_prompt raw_text) = Inr json_text"
    and bad: "json_loads sv json_text = Inl (JSONDecodeError parser_error)"
  assume "\<not> list_all is_space json_text"
  then have ne: "strip json_text \<noteq> []" by (simp only: strip_empty_iff not_False_eq_True)
  then have "json_text \<noteq> []" by (auto simp: strip_def)
  with call bad ne show "generate_requirements_from_text sv raw_text
      = Inl (ValueError (lit ''Model output was not valid JSON. Error: ''
                         @ parser_error @ lit ''. Output preview: '' @ preview json_text))"
    by (simp add: generate_requirements_from_text_def invalid_json_message_def lit_def)
  show "length (preview json_text) \<le> 200" by (rule preview_length)
  show "length (preview json_text) = min 200 (length json_text)"
    by (simp add: preview_def replace_newlines_def min.commute)
next
  fix api_key parser_error :: pystr and json_text :: pystr
  assume "10 \<notin> set (take 200 json_text)"
  then show "preview json_text = take 200 json_text" by (rule preview_prefix)
next
  fix api_key json_text parser_error i
  assume "i < length (preview json_text)"
  then show "preview json_text ! i = (if json_text ! i = 10 then 32 else json_text ! i)"
    by (rule preview_pointwise)
next
  fix api_key json_text data
  assume call: "getenv sv (lit ''OPENAI_API_KEY'') = Some api_key \<and> api_key \<noteq> []
                \<and> responses_create sv api_key (user_prompt raw_text) = Inr json_text"
    and good: "json_loads sv json_text = Inr data"
  assume "\<not> list_all is_space json_text"
  then have ne: "strip json_text \<noteq> []" by (simp only: strip_empty_iff not_False_eq_True)
  then have "json_text \<noteq> []" by (auto simp: strip_def)
  with call good ne show "generate_requirements_from_text sv raw_text = Inr data"
    by (simp add: generate_requirements_from_text_def)
qed


theorem extraction_outcomes_witness:
  "generate_requirements_from_text (sample_services None (Inr []) (Inr JNull)) (lit ''notes'')
     = Inl (ValueError missing_key_message)
   \<and> generate_requirements_from_text
         (sample_services (Some (lit ''sk-test'')) (Inr [32, 10, 32]) (Inr JNull)) (lit ''notes'')
       = Inl (ValueError empty_response_message)
   \<and> generate_requirements_from_text
         (sample_services (Some (lit ''sk-test'')) (Inr ([123, 10] @ lit ''oops''))
            (Inl (JSONDecodeError (lit ''Expecting property name: line 2 column 1 (char 2)''))))
         (lit ''notes'')
       = Inl (ValueError (lit (''Model output was not valid JSON. ''
                @ ''Error: Expecting property name: line 2 column 1 (char 2). ''
                @ ''Output preview: { oops'')))
   \<and> generate_requirements_from_text
         (sample_services (Some (lit ''sk-test'')) (Inr (lit ''{}'')) (Inr (JObj [])))
         (lit ''notes'')
       = Inr (JObj [])"
proof (intro conjI)
  let ?sv = "sample_services None (Inr []) (Inr JNull)"
  have "getenv ?sv (lit ''OPENAI_API_KEY'') = None" by (simp add: sample_services_def)
  from extraction_outcomes [of ?sv "lit ''notes''", THEN conjunct1, THEN mp, OF this]
  show "generate_requirements_from_text ?sv (lit ''notes'') = Inl (ValueError missing_key_message)" .
next
  let ?sv = "sample_services (Some (lit ''sk-test'')) (Inr [32, 10, 32]) (Inr JNull)"
  have call: "getenv ?sv (lit ''OPENAI_API_KEY'') = Some (lit ''sk-test'') \<and> lit ''sk-test'' \<noteq> []
              \<and> responses_create ?sv (lit ''sk-test'') (user_prompt (lit ''notes'')) = Inr [32, 10, 32]"
    by (simp add: sample_services_def lit_def)
  have blank: "list_all is_space [32, 10, 32]" by (simp add: is_space_def)
  from extraction_outcomes [of ?sv "lit ''notes''", THEN conjunct2, THEN spec, THEN spec,
      THEN mp, OF call, THEN conjunct1, THEN mp, OF blank]
  show "generate_requirements_from_text ?sv (lit ''notes'')
        = Inl (ValueError empty_response_message)" .
next
  let ?err = "lit ''Expecting property name: line 2 column 1 (char 2)''"
  let ?out = "[123, 10] @ lit ''oops''"
  let ?sv = "sample_services (Some (lit ''sk-test'')) (Inr ?out) (Inl (JSONDecodeError ?err))"
  have call: "getenv ?sv (lit ''OPENAI_API_KEY'') = Some (lit ''sk-test'') \<and> lit ''sk-test'' \<noteq> []
              \<and> responses_create ?sv (lit ''sk-test'') (user_prompt (lit ''notes'')) = Inr ?out"
    by (simp add: sample_services_def lit_def)
  have filled: "\<not> list_all is_space ?out" by (simp add: is_space_def)
  have bad: "json_loads ?sv ?out = Inl (JSONDecodeError ?err)"
    by (simp add: sample_services_def)
  have shown: "lit ''Model output was not valid JSON. Error: '' @ ?err
              @ lit ''. Output preview: '' @ preview ?out
              = lit (''Model output was not valid JSON. ''
                @ ''Error: Expecting property name: line 2 column 1 (char 2). ''
                @ ''Output preview: { oops'')"
    by (simp add: preview_def replace_newlines_def lit_def)
  from extraction_outcomes [of ?sv "lit ''notes''", THEN conjunct2, THEN spec, THEN spec,
      THEN mp, OF call, THEN conjunct2, THEN mp, OF filled, THEN conjunct1, THEN spec,
      THEN mp, OF bad, THEN conjunct1]
  show "generate_requirements_from_text ?sv (lit ''notes'')
        = Inl (ValueError (lit (''Model output was not valid JSON. ''
                @ ''Error: Expecting property name: line 2 column 1 (char 2). ''
                @ ''Output preview: { oops'')))"
    by (simp only: shown)
next
  let ?sv = "sample_services (Some (lit ''sk-test'')) (Inr (lit ''{}'')) (Inr (JObj []))"
  have call: "getenv ?sv (lit ''OPENAI_API_KEY'') = Some (lit ''sk-test'') \<and> lit ''sk-test'' \<noteq> []
              \<and> responses_create ?sv (lit ''sk-test'') (user_prompt (lit ''notes'')) = Inr (lit ''{}'')"
    by (simp add: sample_services_def lit_def)
  have filled: "\<not> list_all is_space (lit ''{}'')" by (simp add: is_space_def lit_def)
  have good: "json_loads ?sv (lit ''{}'') = Inr (JObj [])"
    by (simp add: sample_services_def)
  from extraction_outcomes [of ?sv "lit ''notes''", THEN conjunct2, THEN spec, THEN spec,
      THEN mp, OF call, THEN conjunct2, THEN mp, OF filled, THEN conjunct2, THEN spec,
      THEN mp, OF good]
  show "generate_requirements_from_text ?sv (lit ''notes'') = Inr (JObj [])" .
qed

section \<open>Properties of the POST handler\<close>

lemma requirements_loop_prefix:
  "requirements_loop rp reqs doc = Inr result \<Longrightarrow> \<exists>rest. result = doc @ rest"
proof (induction reqs arbitrary: doc)
  case Nil
  then show ?case by simp
next
  case (Cons r reqs)
  from Cons.prems obtain blocks where "requirement_blocks rp r = Inr blocks"
    and "requirements_loop rp reqs (doc @ blocks) = Inr result"
    by (auto split: sum.splits)
  from Cons.IH [OF this(2)] obtain rest where "result = (doc @ blocks) @ rest" ..
  then have "result = doc @ (blocks @ rest)" by simp
  then show ?case by (rule exI)
qed

lemma document_content_title:
  assumes "document_content rp (JObj data) = Inr doc"
  shows "hd doc = Heading 0 (JStr [])
           [Run (JStr (py_str rp (dict_get data (lit ''project_key'') (JStr (lit ''PROJECT'')))
                       @ lit '' '' @ [8211] @ lit '' Requirements Specification''))
                False (Some 20)]"
proof -
  from assms obtain reqs where
    "requirements_loop rp reqs
       (document_intro rp (dict_get data (lit ''project_key'') (JStr (lit ''PROJECT'')))) = Inr doc"
    by (auto simp: Let_def split: sum.splits)
  from requirements_loop_prefix [OF this] obtain rest where
    "doc = document_intro rp (dict_get data (lit ''project_key'') (JStr (lit ''PROJECT''))) @ rest" ..
  then show ?thesis by (simp add: document_intro_def)
qed

lemma document_content_dict: "document_content rp data = Inr doc \<Longrightarrow> \<exists>kvs. data = JObj kvs"
  by (cases data) simp_all

lemma set_item_dict:
  "set_item extracted k v = Inr data \<Longrightarrow>
   \<exists>kvs. extracted = JObj kvs \<and> data = JObj (AList.update k v kvs)"
  by (cases extracted) auto

lemma dict_get_update: "dict_get (AList.update k v kvs) k d = v"
  by (simp add: dict_get_def update_conv')

lemma streaming_response_Inr:
  "streaming_response doc_bytes name = Inr r \<Longrightarrow>
   r = StreamingResponse doc_bytes docx_media_type
         [(lit ''Content-Disposition'', lit ''attachment; filename='' @ [34] @ name @ [34])]"
  by (simp add: streaming_response_def Let_def split: if_splits)

lemma generate_word_attachment:
  "generate_word sv conversation_text project_key input_mode upload_file
     = StreamingResponse b m h \<Longrightarrow>
   generate_word_try sv conversation_text project_key input_mode upload_file
     = Inr (StreamingResponse b m h)"
  by (auto simp: generate_word_def render_form_page_def split: sum.splits if_splits)

lemma generate_from_Inr:
  assumes "generate_from sv raw_text project_key = Inr r"
  shows "\<exists>extracted doc doc_bytes.
           generate_requirements_from_text sv raw_text = Inr (JObj extracted)
         \<and> document_content (py_repr sv)
               (JObj (if project_key = [] then extracted
                      else AList.update (lit ''project_key'') (JStr project_key) extracted))
             = Inr doc
         \<and> docx_save sv doc = Inr doc_bytes
         \<and> r = StreamingResponse doc_bytes docx_media_type
               [(lit ''Content-Disposition'',
                 lit ''attachment; filename='' @ [34]
                 @ py_str (py_repr sv)
                     (dict_get (if project_key = [] then extracted
                                else AList.update (lit ''project_key'') (JStr project_key) extracted)
                        (lit ''project_key'') (JStr (lit ''PROJECT'')))
                 @ lit ''_requirements.docx'' @ [34])]"
proof -
  from assms obtain extracted data doc_bytes name
    where ex: "generate_requirements_from_text sv raw_text = Inr extracted"
      and set: "(if project_key \<noteq> []
                 then set_item extracted (lit ''project_key'') (JStr project_key)
                 else Inr extracted) = Inr data"
      and cw: "create_word_bytes_from_requirements sv data = Inr doc_bytes"
      and dn: "download_name sv data = Inr name"
      and sr: "streaming_response doc_bytes name = Inr r"
    by (auto simp: generate_from_def split: sum.splits)
  from cw obtain doc where dc: "document_content (py_repr sv) data = Inr doc"
    and sv: "docx_save sv doc = Inr doc_bytes"
    by (auto simp: create_word_bytes_from_requirements_def split: sum.splits)
  from document_content_dict [OF dc] obtain final where final: "data = JObj final" ..
  have "\<exists>kvs. extracted = JObj kvs
        \<and> final = (if project_key = [] then kvs
                    else AList.update (lit ''project_key'') (JStr project_key) kvs)"
  proof (cases "project_key = []")
    case True
    with set final show ?thesis by simp
  next
    case False
    with set have "set_item extracted (lit ''project_key'') (JStr project_key) = Inr data"
      by simp
    from set_item_dict [OF this] final False show ?thesis by auto
  qed
  then obtain kvs where kvs: "extracted = JObj kvs"
    and fin: "final = (if project_key = [] then kvs
                       else AList.update (lit ''project_key'') (JStr project_key) kvs)"
    by blast
  from dn final have name: "name = py_str (py_repr sv)
        (dict_get final (lit ''project_key'') (JStr (lit ''PROJECT''))) @ lit ''_requirements.docx''"
    by simp
  from streaming_response_Inr [OF sr] have r: "r = StreamingResponse doc_bytes docx_media_type
         [(lit ''Content-Disposition'', lit ''attachment; filename='' @ [34] @ name @ [34])]" .
  show ?thesis
    apply (rule exI [of _ kvs])
    apply (rule exI [of _ doc])
    apply (rule exI [of _ doc_bytes])
    using ex kvs dc final fin sv r name
    apply simp
    done
qed

text \<open>
  C6. A POST that returns the attachment has resolved its input, obtained a dict from the
  extractor, and rendered the final dict: the extracted one, with \<open>project_key\<close> set to
  the user's value when that value is not empty. The only header names the attachment
  after \<open>str\<close> of the final \<open>project_key\<close> (\<open>PROJECT\<close> when there is none) followed by
  \<open>_requirements.docx\<close>. With a user-supplied key, the final key, the file name and the
  title of the rendered document all carry that key.
\<close>

theorem attachment_project_key:
  assumes "generate_word sv conversation_text project_key input_mode upload_file
           = StreamingResponse doc_bytes media hs"
  shows "\<exists>raw_text extracted final doc.
           resolve_input sv input_mode conversation_text upload_file = Inr raw_text
         \<and> generate_requirements_from_text sv raw_text = Inr (JObj extracted)
         \<and> final = (if project_key = [] then extracted
                     else AList.update (lit ''project_key'') (JStr project_key) extracted)
         \<and> document_content (py_repr sv) (JObj final) = Inr doc
         \<and> docx_save sv doc = Inr doc_bytes
         \<and> hs = [(lit ''Content-Disposition'',
                   lit ''attachment; filename='' @ [34]
                   @ py_str (py_repr sv) (dict_get final (lit ''project_key'') (JStr (lit ''PROJECT'')))
                   @ lit ''_requirements.docx'' @ [34])]
         \<and> (project_key \<noteq> [] \<longrightarrow>
               dict_get final (lit ''project_key'') (JStr (lit ''PROJECT'')) = JStr project_key
             \<and> hs = [(lit ''Content-Disposition'',
                       lit ''attachment; filename='' @ [34] @ project_key
                       @ lit ''_requirements.docx'' @ [34])]
             \<and> hd doc = Heading 0 (JStr [])
                  [Run (JStr (project_key @ lit '' '' @ [8211] @ lit '' Requirements Specification''))
                       False (Some 20)])"
proof -
  from generate_word_attachment [OF assms] obtain raw_text
    where res: "resolve_input sv input_mode conversation_text upload_file = Inr raw_text"
      and gen: "generate_from sv raw_text project_key = Inr (StreamingResponse doc_bytes media hs)"
    by (auto simp: generate_word_try_def split: sum.splits)
  let ?final = "\<lambda>extracted. if project_key = [] then extracted
                  else AList.update (lit ''project_key'') (JStr project_key) extracted"
  from generate_from_Inr [OF gen] obtain extracted doc doc_bytes'
    where ex: "generate_requirements_from_text sv raw_text = Inr (JObj extracted)"
      and dc: "document_content (py_repr sv) (JObj (?final extracted)) = Inr doc"
      and sv: "docx_save sv doc = Inr doc_bytes'"
      and r: "StreamingResponse doc_bytes media hs = StreamingResponse doc_bytes' docx_media_type
               [(lit ''Content-Disposition'',
                 lit ''attachment; filename='' @ [34]
                 @ py_str (py_repr sv)
                     (dict_get (?final extracted) (lit ''project_key'') (JStr (lit ''PROJECT'')))
                 @ lit ''_requirements.docx'' @ [34])]"
    by blast
  from r have bytes: "doc_bytes' = doc_bytes"
    and hs: "hs = [(lit ''Content-Disposition'',
                 lit ''attachment; filename='' @ [34]
                 @ py_str (py_repr sv)
                     (dict_get (?final extracted) (lit ''project_key'') (JStr (lit ''PROJECT'')))
                 @ lit ''_requirements.docx'' @ [34])]"
    by simp_all
  have key: "dict_get (?final extracted) (lit ''project_key'') (JStr (lit ''PROJECT''))
             = JStr project_key" if "project_key \<noteq> []"
    using that by (simp add: dict_get_update)
  note title = document_content_title [OF dc]
  from sv bytes have save: "docx_save sv doc = Inr doc_bytes" by simp
  have override: "project_key \<noteq> [] \<longrightarrow>
               dict_get (?final extracted) (lit ''project_key'') (JStr (lit ''PROJECT''))
                 = JStr project_key
             \<and> hs = [(lit ''Content-Disposition'',
                       lit ''attachment; filename='' @ [34] @ project_key
                       @ lit ''_requirements.docx'' @ [34])]
             \<and> hd doc = Heading 0 (JStr [])
                  [Run (JStr (project_key @ lit '' '' @ [8211] @ lit '' Requirements Specification''))
                       False (Some 20)]"
  proof
    assume "project_key \<noteq> []"
    from key [OF this] hs title
    show "dict_get (?final extracted) (lit ''project_key'') (JStr (lit ''PROJECT''))
                 = JStr project_key
             \<and> hs = [(lit ''Content-Disposition'',
                       lit ''attachment; filename='' @ [34] @ project_key
                       @ lit ''_requirements.docx'' @ [34])]
             \<and> hd doc = Heading 0 (JStr [])
                  [Run (JStr (project_key @ lit '' '' @ [8211] @ lit '' Requirements Specification''))
                       False (Some 20)]"
      by simp
  qed
  show ?thesis
    apply (rule exI [of _ raw_text])
    apply (rule exI [of _ extracted])
    apply (rule exI [of _ "?final extracted"])
    apply (rule exI [of _ doc])
    apply (intro conjI)
          apply (rule res)
         apply (rule ex)
        apply (rule refl)
       apply (rule dc)
      apply (rule save)
     apply (rule hs)
    apply (rule override)
    done
qed


theorem attachment_project_key_witness:
  "generate_word
     (sample_services (Some (lit ''sk-test'')) (Inr (lit ''{}''))
        (Inr (JObj [(lit ''project_key'', JStr (lit ''PWD'')),
                    (lit ''requirements'',
                     JList [JObj [(lit ''id'', JStr (lit ''REQ-1'')),
                                  (lit ''summary'', JStr (lit ''Password reset via email'')),
                                  (lit ''story_points'', JInt 3)]])])))
     (lit ''Users should be able to reset their password via email'')
     (lit ''AUTH'') (lit ''text'') None
   = StreamingResponse [80, 75] docx_media_type
       [(lit ''Content-Disposition'',
         lit ''attachment; filename='' @ [34] @ lit ''AUTH_requirements.docx'' @ [34])]
   \<and> (\<exists>doc.
         document_content empty_repr
           (JObj [(lit ''project_key'', JStr (lit ''AUTH'')),
                  (lit ''requirements'',
                   JList [JObj [(lit ''id'', JStr (lit ''REQ-1'')),
                                (lit ''summary'', JStr (lit ''Password reset via email'')),
                                (lit ''story_points'', JInt 3)]])]) = Inr doc
       \<and> hd doc = Heading 0 (JStr [])
                    [Run (JStr (lit ''AUTH'' @ lit '' '' @ [8211] @ lit '' Requirements Specification''))
                         False (Some 20)])"
proof -
  let ?reqs = "JList [JObj [(lit ''id'', JStr (lit ''REQ-1'')),
                            (lit ''summary'', JStr (lit ''Password reset via email'')),
                            (lit ''story_points'', JInt 3)]]"
  let ?parsed = "[(lit ''project_key'', JStr (lit ''PWD'')), (lit ''requirements'', ?reqs)]"
  let ?sv = "sample_services (Some (lit ''sk-test'')) (Inr (lit ''{}'')) (Inr (JObj ?parsed))"
  let ?text = "lit ''Users should be able to reset their password via email''"
  let ?hs = "[(lit ''Content-Disposition'',
               lit ''attachment; filename='' @ [34] @ lit ''AUTH_requirements.docx'' @ [34])]"
  have ext: "generate_requirements_from_text ?sv raw_text = Inr (JObj ?parsed)" for raw_text
    by (simp add: generate_requirements_from_text_def sample_services_def strip_def
        is_space_def lit_def)
  have resolve: "resolve_input ?sv (lit ''text'') ?text None = Inr ?text"
    by (simp add: resolve_input_def strip_def is_space_def lit_def)
  have updated: "AList.update (lit ''project_key'') (JStr (lit ''AUTH'')) ?parsed
                 = [(lit ''project_key'', JStr (lit ''AUTH'')), (lit ''requirements'', ?reqs)]"
    by simp
  have content: "\<exists>doc. document_content empty_repr
                   (JObj [(lit ''project_key'', JStr (lit ''AUTH'')), (lit ''requirements'', ?reqs)])
                 = Inr doc"
    by (simp add: dict_get_def dependencies_blocks_def Let_def lit_def)
  then obtain doc0 where doc0: "document_content empty_repr
         (JObj [(lit ''project_key'', JStr (lit ''AUTH'')), (lit ''requirements'', ?reqs)]) = Inr doc0" ..
  have key: "lit ''AUTH'' \<noteq> []" by (simp add: lit_def)
  have name: "download_name ?sv
         (JObj [(lit ''project_key'', JStr (lit ''AUTH'')), (lit ''requirements'', ?reqs)])
        = Inr (lit ''AUTH_requirements.docx'')"
    by (simp add: dict_get_def lit_def)
  have send: "streaming_response [80, 75] (lit ''AUTH_requirements.docx'')
              = Inr (StreamingResponse [80, 75] docx_media_type ?hs)"
    by (simp add: streaming_response_def lit_def)
  have bytes: "create_word_bytes_from_requirements ?sv
         (JObj [(lit ''project_key'', JStr (lit ''AUTH'')), (lit ''requirements'', ?reqs)])
        = Inr [80, 75]"
    using doc0 by (simp add: create_word_bytes_from_requirements_def sample_services_def)
  have "generate_from ?sv ?text (lit ''AUTH'') = Inr (StreamingResponse [80, 75] docx_media_type ?hs)"
    by (simp only: generate_from_def ext key updated bytes name send
        set_item.simps sum.case if_True not_False_eq_True)
  then have run: "generate_word ?sv ?text (lit ''AUTH'') (lit ''text'') None
                  = StreamingResponse [80, 75] docx_media_type ?hs"
    by (simp only: generate_word_def generate_word_try_def resolve sum.case)
  from attachment_project_key [OF run]
  obtain raw_text extracted final doc
    where ex: "generate_requirements_from_text ?sv raw_text = Inr (JObj extracted)"
      and fin: "final = (if lit ''AUTH'' = [] then extracted
                         else AList.update (lit ''project_key'') (JStr (lit ''AUTH'')) extracted)"
      and dc: "document_content (py_repr ?sv) (JObj final) = Inr doc"
      and ov: "lit ''AUTH'' \<noteq> [] \<longrightarrow>
               dict_get final (lit ''project_key'') (JStr (lit ''PROJECT'')) = JStr (lit ''AUTH'')
             \<and> ?hs = [(lit ''Content-Disposition'',
                       lit ''attachment; filename='' @ [34] @ lit ''AUTH''
                       @ lit ''_requirements.docx'' @ [34])]
             \<and> hd doc = Heading 0 (JStr [])
                  [Run (JStr (lit ''AUTH'' @ lit '' '' @ [8211] @ lit '' Requirements Specification''))
                       False (Some 20)]"
    by (elim exE conjE)
  from ex ext have "extracted = ?parsed" by simp
  with fin key updated have "final
     = [(lit ''project_key'', JStr (lit ''AUTH'')), (lit ''requirements'', ?reqs)]"
    by simp
  with dc have dc': "document_content empty_repr
         (JObj [(lit ''project_key'', JStr (lit ''AUTH'')), (lit ''requirements'', ?reqs)]) = Inr doc"
    by (simp add: sample_services_def)
  from ov key have "hd doc = Heading 0 (JStr [])
                  [Run (JStr (lit ''AUTH'' @ lit '' '' @ [8211] @ lit '' Requirements Specification''))
                       False (Some 20)]"
    by blast
  with dc' have "\<exists>doc. document_content empty_repr
           (JObj [(lit ''project_key'', JStr (lit ''AUTH'')), (lit ''requirements'', ?reqs)]) = Inr doc
       \<and> hd doc = Heading 0 (JStr [])
                    [Run (JStr (lit ''AUTH'' @ lit '' '' @ [8211] @ lit '' Requirements Specification''))
                         False (Some 20)]"
    by (intro exI conjI)
  with run show ?thesis by (rule conjI)
qed

subsection \<open>The error boundary\<close>


lemma own_messages_nonempty:
  "upload_message \<noteq> []" "unsupported_message \<noteq> []" "enter_text_message \<noteq> []"
  "missing_key_message \<noteq> []" "empty_response_message \<noteq> []"
  "invalid_json_message m t \<noteq> []" "latin1_error s \<noteq> []" "generic_prefix @ d \<noteq> []"
  by (simp_all add: upload_message_def unsupported_message_def enter_text_message_def
      missing_key_message_def empty_response_message_def invalid_json_message_def
      latin1_error_def generic_prefix_def quoted_def lit_def Let_def)


















section \<open>The older handler against the newer\<close>

text \<open>
  Against C9 as stated. The two handlers on a conversation text that is a single space,
  with a service that answers: the older one sends the text to the extractor and returns
  the attachment, the newer one trims the text to nothing and returns the form with the
  message of line 585.
\<close>

theorem older_handler_counterexample:
  "generate_word_v1 (sample_services (Some (lit ''sk-test'')) (Inr (lit ''{}'')) (Inr (JObj [])))
     [32] None
   = StreamingResponse [80, 75] docx_media_type
       [(lit ''Content-Disposition'',
         lit ''attachment; filename='' @ [34] @ lit ''PROJECT_requirements.docx'' @ [34])]
   \<and> generate_word (sample_services (Some (lit ''sk-test'')) (Inr (lit ''{}'')) (Inr (JObj [])))
       [32] [] (lit ''text'') None
     = HTMLResponse 200
         (Form \<lparr> error_block = Some (html_escape enter_text_message),
                 text_checked = lit ''checked'', file_checked = [],
                 text_display = lit ''flex'', file_display = lit ''none'',
                 textarea_value = [32], project_key_value = [] \<rparr>)
   \<and> generate_word_v1 (sample_services (Some (lit ''sk-test'')) (Inr (lit ''{}'')) (Inr (JObj [])))
       [32] None
     \<noteq> generate_word (sample_services (Some (lit ''sk-test'')) (Inr (lit ''{}'')) (Inr (JObj [])))
         [32] [] (lit ''text'') None"
proof -
  let ?sv = "sample_services (Some (lit ''sk-test'')) (Inr (lit ''{}'')) (Inr (JObj []))"
  let ?hs = "[(lit ''Content-Disposition'',
               lit ''attachment; filename='' @ [34] @ lit ''PROJECT_requirements.docx'' @ [34])]"
  have ext: "generate_requirements_from_text ?sv [32] = Inr (JObj [])"
    by (simp add: generate_requirements_from_text_def sample_services_def strip_def
        is_space_def lit_def)
  have bytes: "create_word_bytes_from_requirements ?sv (JObj []) = Inr [80, 75]"
    by (simp add: create_word_bytes_from_requirements_def sample_services_def dict_get_def)
  have name: "download_name ?sv (JObj []) = Inr (lit ''PROJECT_requirements.docx'')"
    by (simp add: dict_get_def lit_def)
  have send: "streaming_response [80, 75] (lit ''PROJECT_requirements.docx'')
              = Inr (StreamingResponse [80, 75] docx_media_type ?hs)"
    by (simp add: streaming_response_def lit_def)
  have "generate_from ?sv [32] [] = Inr (StreamingResponse [80, 75] docx_media_type ?hs)"
    by (simp only: generate_from_def ext bytes name send sum.case if_False simp_thms)
  then have old: "generate_word_v1 ?sv [32] None = StreamingResponse [80, 75] docx_media_type ?hs"
    by (simp add: generate_word_v1_def or_empty_def)
  have "generate_word_try ?sv [32] [] (lit ''text'') None = Inl (ValueError enter_text_message)"
    by (simp add: generate_word_try_def resolve_input_def strip_def is_space_def lit_def)
  then have new: "generate_word ?sv [32] [] (lit ''text'') None
     = HTMLResponse 200
         (Form \<lparr> error_block = Some (html_escape enter_text_message),
                 text_checked = lit ''checked'', file_checked = [],
                 text_display = lit ''flex'', file_display = lit ''none'',
                 textarea_value = [32], project_key_value = [] \<rparr>)"
    by (simp add: generate_word_def render_form_page_def shown_error_def own_messages_nonempty
        html_escape_def escape_char_def lit_def)
  from old new have "generate_word_v1 ?sv [32] None \<noteq> generate_word ?sv [32] [] (lit ''text'') None"
    by simp
  with old new show ?thesis by (intro conjI)
qed

text \<open>
  C9, as the code has it. On a conversation text that is not empty and has no white space
  at either end, the older handler and the newer one in any mode other than \<open>file\<close> run
  the same steps on the same text: both return the same attachment, or each returns its
  own form, with status 200 and the same error, conversation text and project key.
\<close>

theorem older_handler_agreement:
  assumes "input_mode \<noteq> lit ''file''"
    and "strip conversation_text = conversation_text"
    and "conversation_text \<noteq> []"
  shows "same_outcome (generate_word_v1 sv conversation_text project_key)
           (generate_word sv conversation_text (or_empty project_key) input_mode upload_file)"
proof -
  from assms have "resolve_input sv input_mode conversation_text upload_file
                   = Inr conversation_text"
    by (simp add: resolve_input_def)
  then have body: "generate_word_try sv conversation_text (or_empty project_key) input_mode upload_file
                  = generate_from sv conversation_text (or_empty project_key)"
    by (simp add: generate_word_try_def)
  show ?thesis
  proof (cases "generate_from sv conversation_text (or_empty project_key)")
    case (Inl e)
    then show ?thesis
      by (simp add: generate_word_v1_def generate_word_def body render_form_page_def
          render_form_page_v1_def)
  next
    case (Inr r)
    from generate_from_Inr [OF this] obtain doc_bytes hs
      where "r = StreamingResponse doc_bytes docx_media_type hs" by blast
    with Inr show ?thesis
      by (simp add: generate_word_v1_def generate_word_def body)
  qed
qed

theorem older_handler_agreement_witness:
  "same_outcome
     (generate_word_v1 (sample_services None (Inr []) (Inr JNull))
        (lit ''Users reset passwords'') (Some (lit ''AUTH'')))
     (generate_word (sample_services None (Inr []) (Inr JNull))
        (lit ''Users reset passwords'') (lit ''AUTH'') (lit ''text'') None)"
proof -
  have mode: "lit ''text'' \<noteq> lit ''file''" by (simp add: lit_def)
  have trimmed: "strip (lit ''Users reset passwords'') = lit ''Users reset passwords''"
    by (simp add: strip_def is_space_def lit_def)
  have filled: "lit ''Users reset passwords'' \<noteq> []" by (simp add: lit_def)
  have key: "or_empty (Some (lit ''AUTH'')) = lit ''AUTH''" by (simp add: or_empty_def)
  from older_handler_agreement [OF mode trimmed filled,
      of "sample_services None (Inr []) (Inr JNull)" "Some (lit ''AUTH'')" None]
  show ?thesis by (simp only: key)
qed

end
